theory Spec2Isabelle
  imports Complex_Main
begin

section \<open>Numbers\<close>

text \<open>
  The toolkit computes on numpy \<^verbatim>\<open>float64\<close> values. A value is modelled as an exact real
  number or one of the three IEEE special values; the arithmetic below follows the
  IEEE rules for the special values (division by zero gives an infinity or NaN, every
  comparison with NaN is false). Rounding, overflow and the sign of zero are outside
  the model: finite results are the exact real results. Samples, \<^verbatim>\<open>mu0\<close> and
  \<^verbatim>\<open>alpha\<close> are finite reals (the spec's Sample is a finite sequence of real numbers).
\<close>

datatype float64 = Fin real | PInf | NInf | NaN

fun fneg :: "float64 \<Rightarrow> float64" where
  "fneg (Fin a) = Fin (- a)"
| "fneg PInf = NInf"
| "fneg NInf = PInf"
| "fneg NaN = NaN"

fun fadd :: "float64 \<Rightarrow> float64 \<Rightarrow> float64" where
  "fadd NaN _ = NaN"
| "fadd _ NaN = NaN"
| "fadd (Fin a) (Fin b) = Fin (a + b)"
| "fadd PInf NInf = NaN"
| "fadd NInf PInf = NaN"
| "fadd PInf _ = PInf"
| "fadd _ PInf = PInf"
| "fadd NInf _ = NInf"
| "fadd _ NInf = NInf"

definition fsub :: "float64 \<Rightarrow> float64 \<Rightarrow> float64" where
  "fsub a b = fadd a (fneg b)"

fun fmul :: "float64 \<Rightarrow> float64 \<Rightarrow> float64" where
  "fmul NaN _ = NaN"
| "fmul _ NaN = NaN"
| "fmul (Fin a) (Fin b) = Fin (a * b)"
| "fmul (Fin a) PInf = (if a = 0 then NaN else if 0 < a then PInf else NInf)"
| "fmul (Fin a) NInf = (if a = 0 then NaN else if 0 < a then NInf else PInf)"
| "fmul PInf (Fin b) = (if b = 0 then NaN else if 0 < b then PInf else NInf)"
| "fmul NInf (Fin b) = (if b = 0 then NaN else if 0 < b then NInf else PInf)"
| "fmul PInf PInf = PInf"
| "fmul NInf NInf = PInf"
| "fmul PInf NInf = NInf"
| "fmul NInf PInf = NInf"

fun fdiv :: "float64 \<Rightarrow> float64 \<Rightarrow> float64" where
  "fdiv NaN _ = NaN"
| "fdiv _ NaN = NaN"
| "fdiv (Fin a) (Fin b) =
     (if b \<noteq> 0 then Fin (a / b)
      else if 0 < a then PInf else if a < 0 then NInf else NaN)"
| "fdiv (Fin a) PInf = Fin 0"
| "fdiv (Fin a) NInf = Fin 0"
| "fdiv PInf (Fin b) = (if 0 \<le> b then PInf else NInf)"
| "fdiv NInf (Fin b) = (if 0 \<le> b then NInf else PInf)"
| "fdiv PInf _ = NaN"
| "fdiv NInf _ = NaN"

fun fsqrt :: "float64 \<Rightarrow> float64" where
  "fsqrt (Fin a) = (if a < 0 then NaN else Fin (sqrt a))"
| "fsqrt PInf = PInf"
| "fsqrt NInf = NaN"
| "fsqrt NaN = NaN"

fun fabs :: "float64 \<Rightarrow> float64" where
  "fabs (Fin a) = Fin \<bar>a\<bar>"
| "fabs PInf = PInf"
| "fabs NInf = PInf"
| "fabs NaN = NaN"

fun flt :: "float64 \<Rightarrow> float64 \<Rightarrow> bool" where
  "flt NaN _ = False"
| "flt _ NaN = False"
| "flt (Fin a) (Fin b) = (a < b)"
| "flt (Fin a) PInf = True"
| "flt NInf (Fin b) = True"
| "flt NInf PInf = True"
| "flt _ _ = False"


section \<open>The numpy operations the toolkit calls\<close>

datatype py_error = ValueError | IndexError

primrec fsum :: "float64 list \<Rightarrow> float64" where
  "fsum [] = Fin 0"
| "fsum (x # xs) = fadd x (fsum xs)"

definition np_sum :: "real list \<Rightarrow> float64" where
  "np_sum data = fsum (map Fin data)"

text \<open>\<^verbatim>\<open>np.mean\<close> divides the sum by the number of items; on an empty array that is
  \<open>0 / 0\<close>, a NaN with a warning, not an exception.\<close>

definition np_mean :: "real list \<Rightarrow> float64" where
  "np_mean data = fdiv (np_sum data) (Fin (real (length data)))"

text \<open>\<^verbatim>\<open>np.var(data, ddof=k)\<close>: the sum of the squared deviations from the mean, divided
  by \<open>max (n - k) 0\<close>; \<^verbatim>\<open>np.std\<close> is its square root.\<close>

definition np_var :: "real list \<Rightarrow> int \<Rightarrow> float64" where
  "np_var data ddof =
     (let arrmean = np_mean data;
          x = map (\<lambda>v. fsub (Fin v) arrmean) data;
          ret = fsum (map (\<lambda>d. fmul d d) x);
          rcount = max (int (length data) - ddof) 0
      in fdiv ret (Fin (real_of_int rcount)))"

definition np_std :: "real list \<Rightarrow> int \<Rightarrow> float64" where
  "np_std data ddof = fsqrt (np_var data ddof)"

text \<open>\<^verbatim>\<open>np.max\<close> and \<^verbatim>\<open>np.min\<close> raise ValueError on an array of size zero.\<close>

fun np_max :: "'a::linorder list \<Rightarrow> py_error + 'a" where
  "np_max [] = Inl ValueError"
| "np_max (x # xs) = Inr (fold max xs x)"


definition np_sort :: "real list \<Rightarrow> real list" where
  "np_sort data = sort data"

text \<open>Reading one item of an array, \<^verbatim>\<open>a[i]\<close>: positions \<open>0 .. len - 1\<close> read from
  the front, positions \<open>-len .. -1\<close> from the back, every other one is an IndexError.\<close>

definition py_index :: "'a list \<Rightarrow> int \<Rightarrow> py_error + 'a" where
  "py_index a i =
     (if 0 \<le> i \<and> i < int (length a) then Inr (a ! nat i)
      else if - int (length a) \<le> i \<and> i < 0 then Inr (a ! nat (int (length a) + i))
      else Inl IndexError)"

text \<open>\<^verbatim>\<open>np.median\<close>: NaN on an empty array (with a warning); otherwise the middle item of
  the sorted array, or the mean of the two middle items.\<close>

definition np_median :: "real list \<Rightarrow> float64" where
  "np_median data =
     (let n = length data; s = sort data
      in if n = 0 then NaN
         else if n mod 2 = 1 then Fin (s ! (n div 2))
         else fdiv (fadd (Fin (s ! (n div 2 - 1))) (Fin (s ! (n div 2)))) (Fin 2))"

text \<open>\<^verbatim>\<open>np.unique(data, return_counts=True)\<close>: the sorted array with adjacent repetitions
  dropped, and how often each of its items occurs in the data.\<close>

definition np_unique_counts :: "real list \<Rightarrow> real list \<times> nat list" where
  "np_unique_counts data =
     (let values = remdups_adj (sort data) in (values, map (count_list data) values))"


section \<open>The printed derivation\<close>

text \<open>
  Every \<^verbatim>\<open>print\<close> of an f-string is one line of the trace: the list of its literal
  segments and of its formatted values, each value with its format specification
  (\<open>''''\<close> where the source gives none). Characters outside ASCII are their UTF-8 bytes.
\<close>

datatype pyval = PFloat float64 | PInt int | PArray "float64 list"

datatype piece = Lit string | Fmt pyval string

type_synonym line = "piece list"

definition nl :: string where "nl = [CHR 0x0A]"
definition xbar :: string where "xbar = [CHR ''x'', CHR 0xCC, CHR 0x84]"
definition Sigma_c :: string where "Sigma_c = [CHR 0xCE, CHR 0xA3]"
definition root_c :: string where "root_c = [CHR 0xE2, CHR 0x88, CHR 0x9A]"
definition mu_c :: string where "mu_c = [CHR 0xCE, CHR 0xBC]"
definition sub0_c :: string where "sub0_c = [CHR 0xE2, CHR 0x82, CHR 0x80]"
definition sub1_c :: string where "sub1_c = [CHR 0xE2, CHR 0x82, CHR 0x81]"
definition alpha_c :: string where "alpha_c = [CHR 0xCE, CHR 0xB1]"
definition neq_c :: string where "neq_c = [CHR 0xE2, CHR 0x89, CHR 0xA0]"
definition pm_c :: string where "pm_c = [CHR 0xC2, CHR 0xB1]"
definition geq_c :: string where "geq_c = [CHR 0xE2, CHR 0x89, CHR 0xA5]"

definition f4 :: "float64 \<Rightarrow> piece" where "f4 v = Fmt (PFloat v) ''.4f''"
definition f6 :: "float64 \<Rightarrow> piece" where "f6 v = Fmt (PFloat v) ''.6f''"
definition fstr :: "float64 \<Rightarrow> piece" where "fstr v = Fmt (PFloat v) ''''"
definition istr :: "int \<Rightarrow> piece" where "istr i = Fmt (PInt i) ''''"
definition astr :: "float64 list \<Rightarrow> piece" where "astr a = Fmt (PArray a) ''''"

section \<open>Descriptive statistics\<close>

subsection \<open>measures_of_spread\<close>



subsection \<open>measures_of_center\<close>

record center_result =
  mean_c :: float64
  median_c :: float64
  mode_c :: "real list"
  n_c :: nat

text \<open>The lines of the median section. Reading the middle items of the sorted array for
  the display raises IndexError on an empty array, after the two heading lines.\<close>

definition median_lines :: "real list \<Rightarrow> float64 \<Rightarrow> line list \<times> (py_error + unit)" where
  "median_lines sorted_data median =
     (let n = int (length sorted_data);
          hd_lines = [[Lit (nl @ ''MEDIAN CALCULATION:'')],
                      [Lit ''Sorted data: '', astr (map Fin sorted_data)]]
      in if n mod 2 = 0 then
           (case py_index sorted_data (n div 2 - 1) of
              Inl e \<Rightarrow> (hd_lines, Inl e)
            | Inr mid1 \<Rightarrow>
                (case py_index sorted_data (n div 2) of
                   Inl e \<Rightarrow> (hd_lines, Inl e)
                 | Inr mid2 \<Rightarrow>
                     (hd_lines @ [[Lit ''n is even: median = ('', fstr (Fin mid1), Lit '' + '',
                                   fstr (Fin mid2), Lit '')/2 = '', f4 median]], Inr ())))
         else
           (case py_index sorted_data (n div 2) of
              Inl e \<Rightarrow> (hd_lines, Inl e)
            | Inr m \<Rightarrow> (hd_lines @ [[Lit ''n is odd: median = '', f4 (Fin m)]], Inr ())))"

definition mode_lines :: "real list \<Rightarrow> nat \<Rightarrow> nat \<Rightarrow> line list" where
  "mode_lines modes max_count len_data =
     [[Lit (nl @ ''MODE:'')],
      (if length modes = 1 then
         [Lit ''Mode = '', f4 (Fin (modes ! 0)), Lit '' (appears '', istr (int max_count),
          Lit '' times)'']
       else if length modes = len_data then
         [Lit ''No mode (all values appear once)'']
       else
         [Lit ''Modes = '', astr (map Fin modes), Lit '' (each appears '', istr (int max_count),
          Lit '' times)''])]"

definition measures_of_center :: "real list \<Rightarrow> bool \<Rightarrow> line list \<times> (py_error + center_result)" where
  "measures_of_center data show_steps =
     (let n = length data;
          out1 = (if show_steps then
                    [[Lit (nl @ ''=== MEASURES OF CENTER ==='')],
                     [Lit ''Sample size: n = '', istr (int n)],
                     [Lit ''Data: '', astr (map Fin data)]]
                  else []);
          data_sum = np_sum data;
          mean = np_mean data;
          out2 = (if show_steps then
                    [[Lit (nl @ ''MEAN CALCULATION:'')],
                     [Lit (xbar @ '' = '' @ Sigma_c @ ''x/n = ''), fstr data_sum, Lit ''/'',
                      istr (int n), Lit '' = '', f4 mean]]
                  else []);
          sorted_data = np_sort data;
          median = np_median data;
          (out3, shown) = (if show_steps then median_lines sorted_data median else ([], Inr ()))
      in case shown of
           Inl e \<Rightarrow> (out1 @ out2 @ out3, Inl e)
         | Inr _ \<Rightarrow>
             (let (values, counts) = np_unique_counts data
              in case np_max counts of
                   Inl e \<Rightarrow> (out1 @ out2 @ out3, Inl e)
                 | Inr max_count \<Rightarrow>
                     (let modes = map fst (filter (\<lambda>(v, c). c = max_count) (zip values counts));
                          out4 = (if show_steps then mode_lines modes max_count (length data)
                                  else [])
                      in (out1 @ out2 @ out3 @ out4,
                          Inr \<lparr>mean_c = mean, median_c = median, mode_c = modes, n_c = n\<rparr>))))"

subsection \<open>five_number_summary\<close>



section \<open>Hypothesis testing\<close>

record StatResult =
  test_name :: string
  statistic :: float64
  p_value :: float64
  critical_value :: "float64 option"
  confidence_interval :: "(float64 \<times> float64) option"
  interpretation_str :: line
  steps :: "string list option"

text \<open>
  \<^verbatim>\<open>stats.t.cdf\<close> and \<^verbatim>\<open>stats.t.ppf\<close> of scipy are the parameters \<open>cdf\<close> and \<open>ppf\<close>: a
  value and the degrees of freedom give a value. The field \<open>interpretation_str\<close> is the
  dataclass field \<^verbatim>\<open>interpretation\<close>; it is an f-string, so it is a line of the same kind
  as the printed ones. No operation of the body raises.
\<close>

definition one_sample_t_test ::
  "(float64 \<Rightarrow> int \<Rightarrow> float64) \<Rightarrow> (float64 \<Rightarrow> int \<Rightarrow> float64) \<Rightarrow>
   real list \<Rightarrow> real \<Rightarrow> real \<Rightarrow> string \<Rightarrow> bool \<Rightarrow> line list \<times> StatResult" where
  "one_sample_t_test cdf ppf data mu0 alpha alternative show_steps =
     (let n = length data;
          sample_mean = np_mean data;
          sample_std = np_std data 1;
          out1 = (if show_steps then
                    [[Lit (nl @ ''=== ONE-SAMPLE T-TEST ==='')],
                     [Lit ''Sample size: n = '', istr (int n)],
                     [Lit (''Sample mean: '' @ xbar @ '' = ''), f4 sample_mean],
                     [Lit ''Sample std dev: s = '', f4 sample_std],
                     [Lit (''Hypothesized mean: '' @ mu_c @ sub0_c @ '' = ''), fstr (Fin mu0)],
                     [Lit (''Significance level: '' @ alpha_c @ '' = ''), fstr (Fin alpha)],
                     [Lit (nl @ ''STEP 1: HYPOTHESES'')],
                     [Lit (''H'' @ sub0_c @ '': '' @ mu_c @ '' = ''), fstr (Fin mu0)],
                     (if alternative = ''two-sided'' then
                        [Lit (''H'' @ sub1_c @ '': '' @ mu_c @ '' '' @ neq_c @ '' ''), fstr (Fin mu0)]
                      else if alternative = ''greater'' then
                        [Lit (''H'' @ sub1_c @ '': '' @ mu_c @ '' > ''), fstr (Fin mu0)]
                      else
                        [Lit (''H'' @ sub1_c @ '': '' @ mu_c @ '' < ''), fstr (Fin mu0)])]
                  else []);
          t_stat = fdiv (fsub sample_mean (Fin mu0)) (fdiv sample_std (fsqrt (Fin (real n))));
          df = int n - 1;
          out2 = (if show_steps then
                    [[Lit (nl @ ''STEP 2: TEST STATISTIC'')],
                     [Lit (''t = ('' @ xbar @ '' - '' @ mu_c @ sub0_c @ '')/(s/'' @ root_c @ ''n)'')],
                     [Lit ''t = ('', f4 sample_mean, Lit '' - '', fstr (Fin mu0), Lit '')/('',
                      f4 sample_std, Lit (''/'' @ root_c), istr (int n), Lit '')''],
                     [Lit ''t = '', f4 t_stat, Lit '' (df = '', istr df, Lit '')'']]
                  else []);
          p_val = (if alternative = ''two-sided'' then
                     fmul (Fin 2) (fsub (Fin 1) (cdf (fabs t_stat) df))
                   else if alternative = ''greater'' then
                     fsub (Fin 1) (cdf t_stat df)
                   else cdf t_stat df);
          crit = (if alternative = ''two-sided'' then ppf (Fin (1 - alpha / 2)) df
                  else ppf (Fin (1 - alpha)) df);
          out3 = (if show_steps then
                    [[Lit (nl @ ''STEP 3: P-VALUE'')],
                     [Lit ''P-value = '', f6 p_val],
                     (if alternative = ''two-sided'' then
                        [Lit (''Critical value = '' @ pm_c), f4 crit]
                      else [Lit ''Critical value = '', f4 crit])]
                  else []);
          reject_null = flt p_val (Fin alpha);
          out4 = (if show_steps then
                    [[Lit (nl @ ''STEP 4: DECISION'')],
                     [Lit (alpha_c @ '' = ''), fstr (Fin alpha)]]
                    @ (if reject_null then
                         [[Lit ''P-value ('', f6 p_val, Lit ('') < '' @ alpha_c @ '' (''),
                           fstr (Fin alpha), Lit (''): REJECT H'' @ sub0_c)],
                          [Lit ''Evidence suggests the mean is significantly different from the hypothesized value'']]
                       else
                         [[Lit ''P-value ('', f6 p_val, Lit ('') '' @ geq_c @ '' '' @ alpha_c @ '' (''),
                           fstr (Fin alpha), Lit (''): FAIL TO REJECT H'' @ sub0_c)],
                          [Lit ''Insufficient evidence to conclude the mean differs from the hypothesized value'']])
                  else []);
          interp = [Lit (if reject_null then ''Reject'' else ''Fail to reject''),
                    Lit ('' H'' @ sub0_c @ '' at '' @ alpha_c @ '' = ''), fstr (Fin alpha)]
      in (out1 @ out2 @ out3 @ out4,
          \<lparr>test_name = ''One-Sample t-test'', statistic = t_stat, p_value = p_val,
           critical_value = Some crit, confidence_interval = None,
           interpretation_str = interp, steps = None\<rparr>))"

text \<open>Student's t distribution with one degree of freedom is the Cauchy distribution, whose
  distribution and quantile functions are elementary. They stand for scipy's functions
  where a test is run on a concrete sample.\<close>

definition cauchy_cdf :: "float64 \<Rightarrow> int \<Rightarrow> float64" where
  "cauchy_cdf x df =
     (case x of Fin t \<Rightarrow> Fin (1 / 2 + arctan t / pi) | PInf \<Rightarrow> Fin 1 | NInf \<Rightarrow> Fin 0
      | NaN \<Rightarrow> NaN)"

definition cauchy_ppf :: "float64 \<Rightarrow> int \<Rightarrow> float64" where
  "cauchy_ppf q df =
     (case q of
        Fin p \<Rightarrow> (if 0 < p \<and> p < 1 then Fin (tan (pi * (p - 1 / 2)))
                  else if p = 0 then NInf else if p = 1 then PInf else NaN)
      | _ \<Rightarrow> NaN)"

section \<open>The formulas of the specification\<close>

text \<open>The statistics as the specification words them, over the real numbers. The theorems
  below compare what the operations return with them.\<close>

definition mean_of :: "real list \<Rightarrow> real" where
  "mean_of data = sum_list data / real (length data)"

definition ss_dev :: "real list \<Rightarrow> real" where
  "ss_dev data = (\<Sum>x\<leftarrow>data. (x - mean_of data)\<^sup>2)"

definition bessel_variance :: "real list \<Rightarrow> real" where
  "bessel_variance data = ss_dev data / (real (length data) - 1)"


text \<open>The values that occur most often in the data, each once, in increasing order.\<close>

definition modes_of :: "real list \<Rightarrow> real list" where
  "modes_of data =
     filter (\<lambda>v. count_list data v = Max (count_list data ` set data)) (remdups_adj (sort data))"




text \<open>The test statistic \<open>t = (x\<^bsub>mean\<^esub> - mu0) / (s / sqrt n)\<close> with the Bessel-corrected \<open>s\<close>.\<close>

definition t_stat_of :: "real list \<Rightarrow> real \<Rightarrow> real" where
  "t_stat_of data mu0 =
     (mean_of data - mu0) / (sqrt (bessel_variance data) / sqrt (real (length data)))"

section \<open>Values and lines of the source that the statements name\<close>

text \<open>The value of the variable \<^verbatim>\<open>t_stat\<close> in the body of \<open>one_sample_t_test\<close>, two of the
  lines that operation prints, and the line of \<open>measures_of_center\<close> for a sample without a
  mode.\<close>

definition t_stat_model :: "real list \<Rightarrow> real \<Rightarrow> float64" where
  "t_stat_model data mu0 =
     fdiv (fsub (np_mean data) (Fin mu0)) (fdiv (np_std data 1) (fsqrt (Fin (real (length data)))))"


definition reject_line :: line where
  "reject_line =
     [Lit ''Evidence suggests the mean is significantly different from the hypothesized value'']"

definition no_mode_line :: line where
  "no_mode_line = [Lit ''No mode (all values appear once)'']"

section \<open>Facts about the numpy operations\<close>

lemma fsum_map_Fin: "fsum (map Fin ys) = Fin (sum_list ys)"
  by (induction ys) simp_all

lemma fsum_map_Fin_f: "fsum (map (\<lambda>v. Fin (f v)) ys) = Fin (\<Sum>v\<leftarrow>ys. f v)"
  by (induction ys) simp_all

lemma np_mean_nonempty: "data \<noteq> [] \<Longrightarrow> np_mean data = Fin (mean_of data)"
  by (simp add: np_mean_def np_sum_def fsum_map_Fin mean_of_def)

lemma np_mean_empty: "np_mean [] = NaN"
  by (simp add: np_mean_def np_sum_def)

lemma np_var_ge2: "2 \<le> length data \<Longrightarrow> np_var data 1 = Fin (bessel_variance data)"
proof -
  assume a: "2 \<le> length data"
  then have ne: "data \<noteq> []" by auto
  have "max (int (length data) - 1) 0 = int (length data) - 1" using a by simp
  moreover have "real_of_int (int (length data) - 1) \<noteq> 0" using a by simp
  ultimately show ?thesis
    using a by (simp add: np_var_def np_mean_nonempty[OF ne] fsub_def fsum_map_Fin_f o_def
        bessel_variance_def ss_dev_def power2_eq_square)
qed

lemma ss_dev_nonneg: "0 \<le> ss_dev data"
  unfolding ss_dev_def by (rule sum_list_nonneg) auto

lemma bessel_variance_nonneg: "2 \<le> length data \<Longrightarrow> 0 \<le> bessel_variance data"
  unfolding bessel_variance_def using ss_dev_nonneg[of data] by simp

lemma np_std_ge2: "2 \<le> length data \<Longrightarrow> np_std data 1 = Fin (sqrt (bessel_variance data))"
  using bessel_variance_nonneg[of data] by (simp add: np_std_def np_var_ge2)

lemma np_max_nonempty: "data \<noteq> [] \<Longrightarrow> np_max data = Inr (Max (set data))"
  by (cases data) (simp_all add: Max.set_eq_fold [symmetric] del: set_simps)


section \<open>Spread\<close>








section \<open>Center\<close>

lemma distinct_remdups_adj_sorted: "sorted xs \<Longrightarrow> distinct (remdups_adj xs)"
  by (induction xs rule: remdups_adj.induct) auto

lemma zip_filter_fst:
  "map fst (filter (\<lambda>(v, c). c = m) (zip vs (map f vs))) = filter (\<lambda>v. f v = m) vs"
  by (induction vs) auto

lemma sort_ne: "data \<noteq> [] \<Longrightarrow> sort data \<noteq> []"
  using length_sort [of "\<lambda>x. x" data] by (metis length_0_conv)

lemma py_index_ok: "0 \<le> i \<Longrightarrow> i < int (length a) \<Longrightarrow> py_index a i = Inr (a ! nat i)"
  by (simp add: py_index_def)

lemma median_lines_ok: "xs \<noteq> [] \<Longrightarrow> snd (median_lines xs m) = Inr ()"
proof -
  assume ne: "xs \<noteq> []"
  then have pos: "0 < int (length xs)" by simp
  have a: "0 \<le> int (length xs) div 2" "int (length xs) div 2 < int (length xs)"
    using pos by presburger+
  have b: "int (length xs) mod 2 = 0 \<Longrightarrow> 0 \<le> int (length xs) div 2 - 1 \<and> int (length xs) div 2 - 1 < int (length xs)"
    using pos by presburger
  show ?thesis
    using b by (auto simp add: median_lines_def Let_def py_index_ok a split: sum.splits)
qed

lemma np_max_counts:
  "data \<noteq> [] \<Longrightarrow> np_max (map (count_list data) (remdups_adj (sort data))) = Inr (Max (count_list data ` set data))"
proof -
  assume "data \<noteq> []"
  then have "map (count_list data) (remdups_adj (sort data)) \<noteq> []" by (simp add: sort_ne)
  then show ?thesis by (simp add: np_max_nonempty)
qed

lemma center_result_nonempty:
  "data \<noteq> [] \<Longrightarrow> snd (measures_of_center data s) =
     Inr \<lparr>mean_c = np_mean data, median_c = np_median data, mode_c = modes_of data, n_c = length data\<rparr>"
proof -
  assume ne: "data \<noteq> []"
  then have m: "snd (median_lines (sort data) (np_median data)) = Inr ()"
    by (intro median_lines_ok sort_ne)
  show ?thesis
    using m by (cases "median_lines (sort data) (np_median data)")
      (simp add: measures_of_center_def Let_def np_sort_def np_unique_counts_def np_max_counts [OF ne]
        zip_filter_fst modes_of_def split: prod.splits sum.splits)
qed

lemma set_modes_of:
  "set (modes_of data) = {x \<in> set data. \<forall>y \<in> set data. count_list data y \<le> count_list data x}"
proof -
  have "\<And>x. x \<in> set data \<Longrightarrow>
      (count_list data x = Max (count_list data ` set data)) = (\<forall>y \<in> set data. count_list data y \<le> count_list data x)"
  proof -
    fix x assume x: "x \<in> set data"
    have fin: "finite (count_list data ` set data)" by simp
    have ne: "count_list data ` set data \<noteq> {}" using x by auto
    show "(count_list data x = Max (count_list data ` set data)) = (\<forall>y \<in> set data. count_list data y \<le> count_list data x)"
    proof
      assume "count_list data x = Max (count_list data ` set data)"
      then show "\<forall>y \<in> set data. count_list data y \<le> count_list data x"
        using fin by simp
    next
      assume "\<forall>y \<in> set data. count_list data y \<le> count_list data x"
      then show "count_list data x = Max (count_list data ` set data)"
        using x fin by (intro Max_eqI [symmetric]) auto
    qed
  qed
  then show ?thesis by (auto simp: modes_of_def)
qed

lemma sorted_modes_of: "sorted (modes_of data)"
  by (simp add: modes_of_def sorted_wrt_filter)

lemma distinct_modes_of: "distinct (modes_of data)"
  by (simp add: modes_of_def distinct_remdups_adj_sorted)

lemma count_list_distinct: "distinct data \<Longrightarrow> x \<in> set data \<Longrightarrow> count_list data x = 1"
  by (induction data) (auto simp: count_list_0_iff)

lemma modes_of_distinct: "distinct data \<Longrightarrow> data \<noteq> [] \<Longrightarrow> modes_of data = sort data"
proof -
  assume d: "distinct data" and ne: "data \<noteq> []"
  have "count_list data ` set data = {1}"
    using ne count_list_distinct [OF d] by (cases data) auto
  then have mx: "Max (count_list data ` set data) = 1" by simp
  have r: "remdups_adj (sort data) = sort data"
    using d by (simp add: remdups_adj_distinct)
  have "\<forall>v \<in> set (sort data). count_list data v = 1"
    using count_list_distinct [OF d] by simp
  then have "filter (\<lambda>v. count_list data v = 1) (sort data) = sort data"
    by (simp only: filter_True)
  then show ?thesis by (simp add: modes_of_def mx r)
qed

lemma length_modes_of_full: "length (modes_of data) = length data \<Longrightarrow> distinct data"
proof -
  assume l: "length (modes_of data) = length data"
  have "set (modes_of data) \<subseteq> set data" by (auto simp: modes_of_def)
  then have "card (set (modes_of data)) \<le> card (set data)" by (simp add: card_mono)
  moreover have "card (set (modes_of data)) = length (modes_of data)"
    using distinct_modes_of by (rule distinct_card)
  moreover have "card (set data) \<le> length data" by (rule card_length)
  ultimately have "card (set data) = length data" using l by simp
  then show ?thesis by (rule card_distinct)
qed

lemma median_lines_no_mode: "no_mode_line \<notin> set (fst (median_lines xs m))"
  by (auto simp: median_lines_def Let_def no_mode_line_def nl_def split: sum.splits)

lemma no_mode_printed:
  "no_mode_line \<in> set (fst (measures_of_center data show_steps))
     \<longleftrightarrow> show_steps \<and> distinct data \<and> 2 \<le> length data"
proof (cases "data = []")
  case True
  then show ?thesis
    using median_lines_no_mode [of "[]" "np_median []"]
    by (cases "median_lines [] (np_median [])")
      (auto simp: measures_of_center_def Let_def np_sort_def np_unique_counts_def no_mode_line_def
        nl_def xbar_def Sigma_c_def split: sum.splits)
next
  case False
  then have m: "snd (median_lines (sort data) (np_median data)) = Inr ()"
    by (intro median_lines_ok sort_ne)
  have trace: "fst (measures_of_center data show_steps) =
      (if show_steps then
         [[Lit (nl @ ''=== MEASURES OF CENTER ==='')],
          [Lit ''Sample size: n = '', istr (int (length data))],
          [Lit ''Data: '', astr (map Fin data)],
          [Lit (nl @ ''MEAN CALCULATION:'')],
          [Lit (xbar @ '' = '' @ Sigma_c @ ''x/n = ''), fstr (np_sum data), Lit ''/'',
           istr (int (length data)), Lit '' = '', f4 (np_mean data)]]
         @ fst (median_lines (sort data) (np_median data))
         @ mode_lines (modes_of data) (Max (count_list data ` set data)) (length data)
       else [])"
    using m by (cases "median_lines (sort data) (np_median data)")
      (simp add: measures_of_center_def Let_def np_sort_def np_unique_counts_def np_max_counts [OF False]
        zip_filter_fst modes_of_def split: prod.splits sum.splits)
  have ml: "no_mode_line \<in> set (mode_lines (modes_of data) (Max (count_list data ` set data)) (length data))
      \<longleftrightarrow> length (modes_of data) \<noteq> 1 \<and> length (modes_of data) = length data"
    by (auto simp: mode_lines_def no_mode_line_def nl_def)
  have d: "length (modes_of data) \<noteq> 1 \<and> length (modes_of data) = length data
      \<longleftrightarrow> distinct data \<and> 2 \<le> length data"
  proof
    assume a: "length (modes_of data) \<noteq> 1 \<and> length (modes_of data) = length data"
    then have "distinct data" using length_modes_of_full by blast
    moreover have "2 \<le> length data" using a False by (cases data) auto
    ultimately show "distinct data \<and> 2 \<le> length data" by simp
  next
    assume a: "distinct data \<and> 2 \<le> length data"
    then have "modes_of data = sort data" using modes_of_distinct False by blast
    then show "length (modes_of data) \<noteq> 1 \<and> length (modes_of data) = length data"
      using a by simp
  qed
  show ?thesis
    using median_lines_no_mode [of "sort data" "np_median data"] ml d
    by (auto simp: trace no_mode_line_def nl_def xbar_def Sigma_c_def)
qed

text \<open>
  Claim C1, as the code has it. For every non-empty sample the mode that
  \<open>measures_of_center\<close> returns is the values attaining the maximum frequency, each once
  and in increasing order; when every value of the sample is unique these are all \<open>n\<close>
  values of the sample, and nothing else in the returned dictionary tells the two cases
  apart. The line "No mode (all values appear once)" is part of the printed derivation
  only: it is printed exactly when the steps are shown, all values are unique and the
  sample has at least two values.
\<close>

theorem center_mode_returned:
  "data \<noteq> [] \<Longrightarrow>
     (\<exists>r. snd (measures_of_center data show_steps) = Inr r
        \<and> set (mode_c r) = {x \<in> set data. \<forall>y \<in> set data. count_list data y \<le> count_list data x}
        \<and> sorted (mode_c r) \<and> distinct (mode_c r)
        \<and> (distinct data \<longrightarrow> mode_c r = sort data \<and> length (mode_c r) = length data))
     \<and> (no_mode_line \<in> set (fst (measures_of_center data show_steps))
          \<longleftrightarrow> show_steps \<and> distinct data \<and> 2 \<le> length data)"
  using modes_of_distinct [of data]
  by (simp add: center_result_nonempty set_modes_of sorted_modes_of distinct_modes_of no_mode_printed)

theorem center_mode_returned_witness:
  "(\<exists>r. snd (measures_of_center [1, 1, 2, 3] True) = Inr r \<and> set (mode_c r) = {1})
   \<and> no_mode_line \<notin> set (fst (measures_of_center [1, 1, 2, 3] True))
   \<and> (\<exists>r. snd (measures_of_center [1, 2, 3] True) = Inr r \<and> mode_c r = [1, 2, 3])
   \<and> no_mode_line \<in> set (fst (measures_of_center [1, 2, 3] True))"
  using center_mode_returned [of "[1, 1, 2, 3]" True] center_mode_returned [of "[1, 2, 3]" True]
  by auto

text \<open>
  Claim C1, as stated, fails on the all-unique sample \<open>[1, 2, 3]\<close>: the returned mode is
  the three values, and the call prints nothing when the steps are not shown.
\<close>

theorem center_all_unique_reports_every_value:
  "measures_of_center [1, 2, 3] False =
     ([], Inr \<lparr>mean_c = Fin 2, median_c = Fin 2, mode_c = [1, 2, 3], n_c = 3\<rparr>)"
  by (simp add: measures_of_center_def Let_def np_sort_def np_unique_counts_def np_mean_def
      np_sum_def np_median_def)









section \<open>Five-number summary\<close>











section \<open>The t-test\<close>

lemma t_test_result:
  "snd (one_sample_t_test cdf ppf data mu0 alpha alternative show_steps) =
     \<lparr>test_name = ''One-Sample t-test'',
      statistic = t_stat_model data mu0,
      p_value = (if alternative = ''two-sided'' then
                   fmul (Fin 2) (fsub (Fin 1) (cdf (fabs (t_stat_model data mu0)) (int (length data) - 1)))
                 else if alternative = ''greater'' then
                   fsub (Fin 1) (cdf (t_stat_model data mu0) (int (length data) - 1))
                 else cdf (t_stat_model data mu0) (int (length data) - 1)),
      critical_value = Some (if alternative = ''two-sided''
                             then ppf (Fin (1 - alpha / 2)) (int (length data) - 1)
                             else ppf (Fin (1 - alpha)) (int (length data) - 1)),
      confidence_interval = None,
      interpretation_str =
        [Lit (if flt (if alternative = ''two-sided'' then
                   fmul (Fin 2) (fsub (Fin 1) (cdf (fabs (t_stat_model data mu0)) (int (length data) - 1)))
                 else if alternative = ''greater'' then
                   fsub (Fin 1) (cdf (t_stat_model data mu0) (int (length data) - 1))
                 else cdf (t_stat_model data mu0) (int (length data) - 1)) (Fin alpha)
              then ''Reject'' else ''Fail to reject''),
         Lit ('' H'' @ sub0_c @ '' at '' @ alpha_c @ '' = ''), fstr (Fin alpha)],
      steps = None\<rparr>"
  by (simp add: one_sample_t_test_def Let_def t_stat_model_def)

lemma t_stat_model_valid:
  assumes n: "2 \<le> length data" and v: "ss_dev data \<noteq> 0"
  shows "t_stat_model data mu0 = Fin (t_stat_of data mu0)"
proof -
  have ne: "data \<noteq> []" using n by (cases data) simp_all
  have "bessel_variance data \<noteq> 0" using n v by (simp add: bessel_variance_def)
  then have s: "sqrt (bessel_variance data) \<noteq> 0" by simp
  have r: "sqrt (real (length data)) \<noteq> 0" using n by (cases data) simp_all
  show ?thesis
    using s r
    by (simp add: t_stat_model_def np_mean_nonempty [OF ne] np_std_ge2 [OF n] fsub_def t_stat_of_def)
qed



lemma t_test_reject_line:
  "reject_line \<in> set (fst (one_sample_t_test cdf ppf data mu0 alpha alternative show_steps))
     \<longleftrightarrow> show_steps
          \<and> flt (p_value (snd (one_sample_t_test cdf ppf data mu0 alpha alternative show_steps)))
                (Fin alpha)"
  by (simp add: one_sample_t_test_def Let_def reject_line_def nl_def)


















text \<open>
  Claim C5. For every input, the interpretation returned by \<open>one_sample_t_test\<close> starts
  with "Reject" if and only if the p-value it returns is strictly less than \<open>alpha\<close>, and
  with "Fail to reject" otherwise; the printed decision follows the same comparison.
\<close>

theorem t_test_decision:
  "interpretation_str (snd (one_sample_t_test cdf ppf data mu0 alpha alternative show_steps))
     = [Lit (if flt (p_value (snd (one_sample_t_test cdf ppf data mu0 alpha alternative show_steps)))
                    (Fin alpha)
             then ''Reject'' else ''Fail to reject''),
        Lit ('' H'' @ sub0_c @ '' at '' @ alpha_c @ '' = ''), fstr (Fin alpha)]
   \<and> (hd (interpretation_str (snd (one_sample_t_test cdf ppf data mu0 alpha alternative show_steps)))
          = Lit ''Reject''
        \<longleftrightarrow> flt (p_value (snd (one_sample_t_test cdf ppf data mu0 alpha alternative show_steps)))
                (Fin alpha))
   \<and> (\<forall>p. p_value (snd (one_sample_t_test cdf ppf data mu0 alpha alternative show_steps)) = Fin p
          \<longrightarrow> (hd (interpretation_str
                      (snd (one_sample_t_test cdf ppf data mu0 alpha alternative show_steps)))
                  = Lit ''Reject'') = (p < alpha))
   \<and> (reject_line \<in> set (fst (one_sample_t_test cdf ppf data mu0 alpha alternative show_steps))
        \<longleftrightarrow> show_steps
             \<and> flt (p_value (snd (one_sample_t_test cdf ppf data mu0 alpha alternative show_steps)))
                   (Fin alpha))"
  using t_test_reject_line [of cdf ppf data mu0 alpha alternative show_steps]
  by (simp add: t_test_result)

theorem t_test_decision_witness:
  "hd (interpretation_str (snd (one_sample_t_test cauchy_cdf cauchy_ppf [1, 3] 0 (1 / 20) ''less'' True)))
     = Lit ''Fail to reject''"
proof -
  let ?R = "snd (one_sample_t_test cauchy_cdf cauchy_ppf [1, 3] 0 (1 / 20) ''less'' True)"
  have ss: "ss_dev [1, 3] \<noteq> 0" by (simp add: ss_dev_def mean_of_def)
  have t: "t_stat_of [1, 3] 0 = 2"
    by (simp add: t_stat_of_def bessel_variance_def ss_dev_def mean_of_def)
  have p: "p_value ?R = Fin (1 / 2 + arctan 2 / pi)"
    using t_stat_model_valid [of "[1, 3]" 0] ss by (simp add: t_test_result t cauchy_cdf_def)
  have a: "0 \<le> arctan 2 / pi" by simp
  have "\<not> (1 / 2 + arctan 2 / pi < 1 / 20)" using a by linarith
  then have nf: "flt (p_value ?R) (Fin (1 / 20)) = False" by (simp only: p flt.simps)
  have "interpretation_str ?R
      = [Lit (if flt (p_value ?R) (Fin (1 / 20)) then ''Reject'' else ''Fail to reject''),
         Lit ('' H'' @ sub0_c @ '' at '' @ alpha_c @ '' = ''), fstr (Fin (1 / 20))]"
    using t_test_decision [of cauchy_cdf cauchy_ppf "[1, 3]" 0 "1 / 20" "''less''" True]
    by (rule conjunct1)
  then show ?thesis by (simp only: nf if_False list.sel)
qed

text \<open>
  Claim C10. For every input, the result of \<open>one_sample_t_test\<close> has the test name
  "One-Sample t-test", a critical value and a non-empty interpretation (next to the
  statistic and the p-value, which every result has), and neither a confidence
  interval nor a list of steps.
\<close>

theorem t_test_result_fields:
  "test_name (snd (one_sample_t_test cdf ppf data mu0 alpha alternative show_steps))
     = ''One-Sample t-test''
   \<and> critical_value (snd (one_sample_t_test cdf ppf data mu0 alpha alternative show_steps))
     = Some (ppf (Fin (if alternative = ''two-sided'' then 1 - alpha / 2 else 1 - alpha))
                 (int (length data) - 1))
   \<and> interpretation_str (snd (one_sample_t_test cdf ppf data mu0 alpha alternative show_steps)) \<noteq> []
   \<and> confidence_interval (snd (one_sample_t_test cdf ppf data mu0 alpha alternative show_steps)) = None
   \<and> steps (snd (one_sample_t_test cdf ppf data mu0 alpha alternative show_steps)) = None"
  by (simp add: t_test_result)

theorem t_test_result_fields_witness:
  "critical_value (snd (one_sample_t_test cauchy_cdf cauchy_ppf [1, 3] 0 0.5 ''greater'' False))
     = Some (Fin 0)
   \<and> confidence_interval (snd (one_sample_t_test cauchy_cdf cauchy_ppf [1, 3] 0 0.5 ''greater'' False))
     = None
   \<and> steps (snd (one_sample_t_test cauchy_cdf cauchy_ppf [1, 3] 0 0.5 ''greater'' False)) = None"
  using t_test_result_fields [of cauchy_cdf cauchy_ppf "[1, 3]" 0 "0.5" "''greater''" False]
  by (simp add: cauchy_ppf_def)

end
